theory Spec2Isabelle
  imports Complex_Main
begin

text \<open>
  A shallow embedding of the Joshoeixi Vape inventory application. The repository holds
  the server twice: src/server/index.js, and a second server file with a stricter
  validator, which src/unnamed/part_000 carries after the React client (the App
  component). Both servers keep the inventory in memory and share the text of their create,
  update and delete routes. The embedding follows the source: the validators, the routes
  as functions on the inventory, the client's derived analytics and its sale handler.
\<close>

section \<open>JavaScript values\<close>

text \<open>
  A JavaScript number is an IEEE double: a finite value, one of the two infinities, or
  NaN. The finite values are embedded in the rationals (\<open>Fin\<close>); comparisons are
  exact there. Arithmetic on finite values is taken without rounding and without a
  signed zero.
\<close>

datatype jsnum = NaN | NegInf | Fin rat | PosInf

text \<open>\<^verbatim>\<open>Number.isFinite(x)\<close>\<close>

fun isFinite :: "jsnum \<Rightarrow> bool" where
  "isFinite (Fin _) = True"
| "isFinite _ = False"

text \<open>\<^verbatim>\<open>a < b\<close> on numbers: false as soon as one side is NaN.\<close>

fun js_lt :: "jsnum \<Rightarrow> jsnum \<Rightarrow> bool" where
  "js_lt NaN _ = False"
| "js_lt _ NaN = False"
| "js_lt (Fin a) (Fin b) = (a < b)"
| "js_lt NegInf NegInf = False"
| "js_lt NegInf _ = True"
| "js_lt PosInf _ = False"
| "js_lt (Fin _) NegInf = False"
| "js_lt (Fin _) PosInf = True"


definition js_strict_eq :: "jsnum \<Rightarrow> jsnum \<Rightarrow> bool" where
  "js_strict_eq a b = (a \<noteq> NaN \<and> b \<noteq> NaN \<and> a = b)"

text \<open>\<^verbatim>\<open>a - b\<close> on numbers.\<close>

fun js_sub :: "jsnum \<Rightarrow> jsnum \<Rightarrow> jsnum" where
  "js_sub NaN _ = NaN"
| "js_sub _ NaN = NaN"
| "js_sub (Fin a) (Fin b) = Fin (a - b)"
| "js_sub PosInf PosInf = NaN"
| "js_sub NegInf NegInf = NaN"
| "js_sub PosInf _ = PosInf"
| "js_sub NegInf _ = NegInf"
| "js_sub (Fin _) PosInf = NegInf"
| "js_sub (Fin _) NegInf = PosInf"

text \<open>
  A field of a JSON request body, seen through the one conversion the server applies to
  it. The code reads the text fields only through \<^verbatim>\<open>toString()\<close> and the numeric fields
  only through \<^verbatim>\<open>Number(...)\<close>, after asking whether the field is \<^verbatim>\<open>undefined\<close>
  (absent) or \<^verbatim>\<open>null\<close>. So \<open>Value s :: string field\<close> stands for any JSON value that
  is neither and whose \<^verbatim>\<open>toString()\<close> is \<open>s\<close>, and \<open>Value n :: jsnum field\<close> for any
  JSON value that is neither and whose \<^verbatim>\<open>Number(...)\<close> is \<open>n\<close> (the number itself, a
  numeric string, or \<open>NaN\<close> for text that is no number). JSON objects that carry keys
  named \<^verbatim>\<open>toString\<close> or \<^verbatim>\<open>valueOf\<close> are outside the model.
\<close>

datatype 'a field = Undefined | Null | Value 'a

text \<open>\<^verbatim>\<open>const toNumber = (value) => Number(value)\<close>\<close>

fun toNumber :: "jsnum field \<Rightarrow> jsnum" where
  "toNumber Undefined = NaN"
| "toNumber Null = Fin 0"
| "toNumber (Value n) = n"

text \<open>\<^verbatim>\<open>a ?? b\<close>: the right operand when the left one is \<^verbatim>\<open>null\<close> or \<^verbatim>\<open>undefined\<close>.\<close>

fun coalesce :: "'a field \<Rightarrow> 'a field \<Rightarrow> 'a field" where
  "coalesce (Value x) _ = Value x"
| "coalesce _ b = b"

text \<open>\<^verbatim>\<open>a !== undefined ? a : b\<close>\<close>

fun pick :: "'a field \<Rightarrow> 'a field \<Rightarrow> 'a field" where
  "pick Undefined b = b"
| "pick a _ = a"

section \<open>Strings\<close>

text \<open>
  Strings are sequences of code units below 256 (ASCII and Latin-1), which is what the
  8-bit characters of HOL hold. On these, \<^verbatim>\<open>trim()\<close> strips the seven white-space and
  line-terminator characters of that range, and \<^verbatim>\<open>toLowerCase()\<close> maps A-Z and the
  upper-case Latin-1 letters (all but the multiplication sign) 32 places up.
\<close>

definition is_space :: "char \<Rightarrow> bool" where
  "is_space c = (c \<in> set [CHR 0x09, CHR 0x0A, CHR 0x0B, CHR 0x0C, CHR 0x0D, CHR 0x20, CHR 0xA0])"

definition trim :: "string \<Rightarrow> string" where
  "trim s = rev (dropWhile is_space (rev (dropWhile is_space s)))"




section \<open>The data model of the server\<close>

text \<open>
  The seven fields the validator normalises, the stored item (these and its id), and the
  response (the item with the two derived fields). Ids are only ever produced by the
  server (the seed and \<open>nextId\<close>), so they are integers; they are unbounded here, where a
  double is exact up to \<open>2 ^ 53\<close>.
\<close>

record norm =
  name :: string
  brand :: string
  category :: string
  stock :: jsnum
  rawPrice :: jsnum
  sellingPrice :: jsnum
  minStockAlert :: jsnum

record item = norm +
  item_id :: int

record response = item +
  profit :: jsnum
  price :: jsnum

text \<open>The request body: the eight fields the validator reads; any other field is ignored.\<close>

record body =
  b_name :: "string field"
  b_brand :: "string field"
  b_category :: "string field"
  b_stock :: "jsnum field"
  b_rawPrice :: "jsnum field"
  b_sellingPrice :: "jsnum field"
  b_price :: "jsnum field"
  b_minStockAlert :: "jsnum field"

text \<open>
  What the validator returns: \<^verbatim>\<open>{ error }\<close> or \<^verbatim>\<open>{ item }\<close>; \<open>Threw\<close> is the TypeError of
  calling \<^verbatim>\<open>toString\<close> on \<^verbatim>\<open>null\<close>.
\<close>

datatype validation = Threw | Error string | Item norm

text \<open>\<^verbatim>\<open>{ id: i, ...validation.item }\<close>\<close>

definition with_id :: "int \<Rightarrow> norm \<Rightarrow> item" where
  "with_id i v =
     \<lparr>name = name v, brand = brand v, category = category v, stock = stock v,
      rawPrice = rawPrice v, sellingPrice = sellingPrice v, minStockAlert = minStockAlert v,
      item_id = i\<rparr>"

section \<open>Helpers of the server\<close>


definition buildItemResponse :: "item \<Rightarrow> response" where
  "buildItemResponse it =
     (let rawPrice' = toNumber (Value (rawPrice it));
          sellingPrice' = toNumber (Value (sellingPrice it))
      in \<lparr>name = name it, brand = brand it, category = category it, stock = stock it,
          rawPrice = rawPrice', sellingPrice = sellingPrice',
          minStockAlert = toNumber (Value (minStockAlert it)),
          item_id = item_id it,
          profit = js_sub sellingPrice' rawPrice',
          price = sellingPrice'\<rparr>)"

text \<open>\<^verbatim>\<open>currentItem?.f\<close>, \<^verbatim>\<open>v?.toString().trim()\<close>, and \<^verbatim>\<open>!s\<close> for a string or nothing.\<close>

definition current :: "item option \<Rightarrow> (item \<Rightarrow> 'a) \<Rightarrow> 'a field" where
  "current currentItem f = (case currentItem of None \<Rightarrow> Undefined | Some it \<Rightarrow> Value (f it))"

fun opt_trim :: "string field \<Rightarrow> string field" where
  "opt_trim (Value s) = Value (trim s)"
| "opt_trim _ = Undefined"

fun falsy :: "string field \<Rightarrow> bool" where
  "falsy (Value s) = (s = [])"
| "falsy _ = True"

fun text_of :: "string field \<Rightarrow> string" where
  "text_of (Value s) = s"
| "text_of _ = []"

section \<open>The validator of src/server/index.js\<close>

definition name_of :: "body \<Rightarrow> item option \<Rightarrow> string field" where
  "name_of body currentItem = coalesce (opt_trim (b_name body)) (current currentItem name)"

definition brand_of :: "body \<Rightarrow> item option \<Rightarrow> string field" where
  "brand_of body currentItem = coalesce (opt_trim (b_brand body)) (current currentItem brand)"

definition category_of :: "body \<Rightarrow> item option \<Rightarrow> string field" where
  "category_of body currentItem =
     coalesce (opt_trim (b_category body)) (current currentItem category)"

definition stock_of :: "body \<Rightarrow> item option \<Rightarrow> jsnum" where
  "stock_of body currentItem = toNumber (coalesce (b_stock body) (current currentItem stock))"

definition rawPrice_of :: "body \<Rightarrow> item option \<Rightarrow> jsnum" where
  "rawPrice_of body currentItem =
     toNumber (coalesce (b_rawPrice body) (current currentItem rawPrice))"

definition sellingPrice_of :: "body \<Rightarrow> item option \<Rightarrow> jsnum" where
  "sellingPrice_of body currentItem =
     toNumber (coalesce (b_sellingPrice body)
                 (coalesce (b_price body) (current currentItem sellingPrice)))"

definition minStockAlert_of :: "body \<Rightarrow> item option \<Rightarrow> jsnum" where
  "minStockAlert_of body currentItem =
     toNumber (coalesce (b_minStockAlert body)
                 (coalesce (current currentItem minStockAlert) (Value (Fin 10))))"

definition validateAndNormalizeItem :: "body \<Rightarrow> item option \<Rightarrow> bool \<Rightarrow> validation" where
  "validateAndNormalizeItem body currentItem isCreate =
     (if falsy (name_of body currentItem) \<or> falsy (brand_of body currentItem)
           \<or> falsy (category_of body currentItem)
      then Error ''Name, brand, and category are required.''
      else if \<not> isFinite (stock_of body currentItem)
           \<or> \<not> isFinite (rawPrice_of body currentItem)
           \<or> \<not> isFinite (sellingPrice_of body currentItem)
           \<or> js_lt (stock_of body currentItem) (Fin 0)
           \<or> js_lt (rawPrice_of body currentItem) (Fin 0)
           \<or> js_lt (sellingPrice_of body currentItem) (rawPrice_of body currentItem)
      then Error ''Invalid numeric values.''
      else if isCreate \<and> (b_rawPrice body = Undefined \<or> b_sellingPrice body = Undefined)
      then Error ''Raw price and selling price are required.''
      else Item \<lparr>name = text_of (name_of body currentItem),
                 brand = text_of (brand_of body currentItem),
                 category = text_of (category_of body currentItem),
                 stock = stock_of body currentItem,
                 rawPrice = rawPrice_of body currentItem,
                 sellingPrice = sellingPrice_of body currentItem,
                 minStockAlert = minStockAlert_of body currentItem\<rparr>)"

section \<open>The validator of the second server file (src/unnamed/part_000)\<close>

text \<open>
  The second server tests \<^verbatim>\<open>!== undefined\<close> where the first uses \<^verbatim>\<open>??\<close>, so a \<^verbatim>\<open>null\<close>
  field counts as supplied: \<^verbatim>\<open>null.toString()\<close> throws for the three text fields, and
  \<^verbatim>\<open>Number(null)\<close> is 0 for the numeric ones. It checks each number on its own, and
  the alert threshold too.
\<close>

fun to_trim :: "string field \<Rightarrow> string field" where
  "to_trim (Value s) = Value (trim s)"
| "to_trim v = v"

definition name_of2 :: "body \<Rightarrow> item option \<Rightarrow> string field" where
  "name_of2 body currentItem = pick (to_trim (b_name body)) (current currentItem name)"

definition brand_of2 :: "body \<Rightarrow> item option \<Rightarrow> string field" where
  "brand_of2 body currentItem = pick (to_trim (b_brand body)) (current currentItem brand)"

definition category_of2 :: "body \<Rightarrow> item option \<Rightarrow> string field" where
  "category_of2 body currentItem =
     pick (to_trim (b_category body)) (current currentItem category)"

definition stock_of2 :: "body \<Rightarrow> item option \<Rightarrow> jsnum" where
  "stock_of2 body currentItem = toNumber (pick (b_stock body) (current currentItem stock))"

definition rawPrice_of2 :: "body \<Rightarrow> item option \<Rightarrow> jsnum" where
  "rawPrice_of2 body currentItem =
     toNumber (pick (b_rawPrice body) (current currentItem rawPrice))"

definition sellingPrice_of2 :: "body \<Rightarrow> item option \<Rightarrow> jsnum" where
  "sellingPrice_of2 body currentItem =
     toNumber (pick (b_sellingPrice body)
                 (pick (b_price body) (current currentItem sellingPrice)))"

definition minStockAlert_of2 :: "body \<Rightarrow> item option \<Rightarrow> jsnum" where
  "minStockAlert_of2 body currentItem =
     toNumber (pick (b_minStockAlert body)
                 (coalesce (current currentItem minStockAlert) (Value (Fin 10))))"

definition validateAndNormalizeItem2 :: "body \<Rightarrow> item option \<Rightarrow> bool \<Rightarrow> validation" where
  "validateAndNormalizeItem2 body currentItem isCreate =
     (if b_name body = Null \<or> b_brand body = Null \<or> b_category body = Null then Threw
      else if falsy (name_of2 body currentItem) \<or> falsy (brand_of2 body currentItem)
           \<or> falsy (category_of2 body currentItem)
      then Error ''Name, brand, and category are required.''
      else if \<not> isFinite (stock_of2 body currentItem) \<or> js_lt (stock_of2 body currentItem) (Fin 0)
      then Error ''Stock must be a valid non-negative number.''
      else if \<not> isFinite (rawPrice_of2 body currentItem)
           \<or> js_lt (rawPrice_of2 body currentItem) (Fin 0)
      then Error ''Raw price must be a valid non-negative number.''
      else if \<not> isFinite (sellingPrice_of2 body currentItem)
           \<or> js_lt (sellingPrice_of2 body currentItem) (Fin 0)
      then Error ''Selling price must be a valid non-negative number.''
      else if js_lt (sellingPrice_of2 body currentItem) (rawPrice_of2 body currentItem)
      then Error ''Selling price must be greater than or equal to raw price.''
      else if \<not> isFinite (minStockAlert_of2 body currentItem)
           \<or> js_lt (minStockAlert_of2 body currentItem) (Fin 0)
      then Error ''Minimum stock alert must be a valid non-negative number.''
      else if isCreate \<and> (b_rawPrice body = Undefined
                          \<or> (b_sellingPrice body = Undefined \<and> b_price body = Undefined))
      then Error ''Raw price and selling price are required.''
      else Item \<lparr>name = text_of (name_of2 body currentItem),
                 brand = text_of (brand_of2 body currentItem),
                 category = text_of (category_of2 body currentItem),
                 stock = stock_of2 body currentItem,
                 rawPrice = rawPrice_of2 body currentItem,
                 sellingPrice = sellingPrice_of2 body currentItem,
                 minStockAlert = minStockAlert_of2 body currentItem\<rparr>)"

section \<open>The store and the routes\<close>

text \<open>
  The in-memory inventory is a list in insertion order. A handler takes the inventory and
  returns the reply with the inventory it leaves behind. The two server files share the
  text of the create, update and delete routes; they differ in the validator they call,
  which is the handlers' first argument here. \<open>Uncaught\<close> is an exception leaving the
  handler (Express answers it with status 500).
\<close>

datatype reply =
    Ok response
  | OkList "response list"
  | Created response
  | NoContent
  | BadRequest string
  | NotFound string
  | Uncaught

type_synonym validator = "body \<Rightarrow> item option \<Rightarrow> bool \<Rightarrow> validation"

text \<open>
  \<^verbatim>\<open>inventory.findIndex((i) => i.id === id)\<close>, with \<open>None\<close> for \<open>-1\<close>; \<open>n\<close> is
  \<^verbatim>\<open>Number(req.params.id)\<close>, any number and \<open>NaN\<close> for a parameter that is no number.
\<close>

fun findIndex :: "('a \<Rightarrow> bool) \<Rightarrow> 'a list \<Rightarrow> nat option" where
  "findIndex P [] = None"
| "findIndex P (x # xs) =
     (if P x then Some 0 else (case findIndex P xs of None \<Rightarrow> None | Some k \<Rightarrow> Some (Suc k)))"

definition has_id :: "jsnum \<Rightarrow> item \<Rightarrow> bool" where
  "has_id n i = js_strict_eq (Fin (of_int (item_id i))) n"


text \<open>
  \<^verbatim>\<open>app.put('/api/items/:id', ...)\<close>. The validated item spreads the current one under the
  seven fields, so \<^verbatim>\<open>{ ...inventory[index], ...validation.item }\<close> is the current id with
  the seven validated fields. The first file passes no \<^verbatim>\<open>isCreate\<close>, the second passes
  \<^verbatim>\<open>false\<close>; both are falsy.
\<close>

definition put_item :: "validator \<Rightarrow> item list \<Rightarrow> jsnum \<Rightarrow> body \<Rightarrow> reply \<times> item list" where
  "put_item validate inventory n bdy =
     (case findIndex (has_id n) inventory of
        None \<Rightarrow> (NotFound ''Item not found.'', inventory)
      | Some index \<Rightarrow>
          (case validate bdy (Some (inventory ! index)) False of
             Threw \<Rightarrow> (Uncaught, inventory)
           | Error e \<Rightarrow> (BadRequest e, inventory)
           | Item v \<Rightarrow>
               (let updated = with_id (item_id (inventory ! index)) v
                in (Ok (buildItemResponse updated), inventory[index := updated]))))"

text \<open>\<^verbatim>\<open>app.delete('/api/items/:id', ...)\<close>\<close>

definition delete_item :: "item list \<Rightarrow> jsnum \<Rightarrow> reply \<times> item list" where
  "delete_item inventory n =
     (let len = length inventory;
          inventory' = filter (\<lambda>i. \<not> has_id n i) inventory
      in if length inventory' = len then (NotFound ''Item not found.'', inventory')
         else (NoContent, inventory'))"




text \<open>The seed of src/server/index.js (its third name ends in the code units 0xCE 0xA9).\<close>

definition inventory :: "item list" where
  "inventory =
     [\<lparr>name = ''Strawberry Milk 60ml'', brand = ''Cloudy Co.'', category = ''E-Liquid'',
       stock = Fin 24, rawPrice = Fin 280, sellingPrice = Fin 450, minStockAlert = Fin 10,
       item_id = 1\<rparr>,
      \<lparr>name = ''Mint Freeze Disposable'', brand = ''VapeX'', category = ''Disposable'',
       stock = Fin 15, rawPrice = Fin 230, sellingPrice = Fin 380, minStockAlert = Fin 8,
       item_id = 2\<rparr>,
      \<lparr>name = ''Mesh Coil 0.8'' @ [CHR 0xCE, CHR 0xA9], brand = ''SmokeLab'',
       category = ''Coils'',
       stock = Fin 40, rawPrice = Fin 120, sellingPrice = Fin 220, minStockAlert = Fin 15,
       item_id = 3\<rparr>,
      \<lparr>name = ''Pod Cartridge 2ml'', brand = ''VapeX'', category = ''Pods'',
       stock = Fin 28, rawPrice = Fin 95, sellingPrice = Fin 180, minStockAlert = Fin 12,
       item_id = 4\<rparr>,
      \<lparr>name = ''Battery 18650 3000mAh'', brand = ''PowerLeaf'', category = ''Accessories'',
       stock = Fin 12, rawPrice = Fin 340, sellingPrice = Fin 520, minStockAlert = Fin 6,
       item_id = 5\<rparr>]"


section \<open>The client: derived analytics (App component, src/unnamed/part_000)\<close>

text \<open>
  The client holds the items as the server's JSON delivers them. JSON carries finite
  numbers only (the server's \<^verbatim>\<open>res.json\<close> writes \<open>NaN\<close> and the infinities as
  \<^verbatim>\<open>null\<close>), so \<open>c_stock\<close>, which stands for \<^verbatim>\<open>Number(item.stock)\<close>, is a rational, and
  the fields the client reads through \<^verbatim>\<open>??\<close> are optional, \<open>None\<close> for \<^verbatim>\<open>null\<close> or
  absent. As on the server, arithmetic is exact: the decimal constants are the
  fractions they denote.
\<close>

record citem =
  c_id :: int
  c_name :: string
  c_brand :: string
  c_category :: string
  c_stock :: rat
  c_rawPrice :: "rat option"
  c_sellingPrice :: "rat option"
  c_price :: "rat option"
  c_minStockAlert :: "rat option"

text \<open>\<^verbatim>\<open>Number(item.rawPrice ?? 0)\<close>, \<^verbatim>\<open>Number(item.sellingPrice ?? item.price ?? 0)\<close>,
  \<^verbatim>\<open>Number(item.minStockAlert ?? 10)\<close>\<close>

definition rawPriceOf :: "citem \<Rightarrow> rat" where
  "rawPriceOf it = (case c_rawPrice it of Some v \<Rightarrow> v | None \<Rightarrow> 0)"

definition sellingPriceOf :: "citem \<Rightarrow> rat" where
  "sellingPriceOf it =
     (case c_sellingPrice it of Some v \<Rightarrow> v
      | None \<Rightarrow> (case c_price it of Some v \<Rightarrow> v | None \<Rightarrow> 0))"

definition minStockAlertOf :: "citem \<Rightarrow> rat" where
  "minStockAlertOf it = (case c_minStockAlert it of Some v \<Rightarrow> v | None \<Rightarrow> 10)"


text \<open>\<^verbatim>\<open>xs.map((x, index) => f(x, index))\<close>\<close>

fun map_index_from :: "nat \<Rightarrow> (nat \<Rightarrow> 'a \<Rightarrow> 'b) \<Rightarrow> 'a list \<Rightarrow> 'b list" where
  "map_index_from i f [] = []"
| "map_index_from i f (x # xs) = f i x # map_index_from (Suc i) f xs"

definition map_index :: "(nat \<Rightarrow> 'a \<Rightarrow> 'b) \<Rightarrow> 'a list \<Rightarrow> 'b list" where
  "map_index f xs = map_index_from 0 f xs"







subsection \<open>Category grouping\<close>

text \<open>
  \<^verbatim>\<open>grouped\<close> is a plain object used as a dictionary from category labels to running
  sums. Its own properties are kept in creation order. Reading a key that is not an own
  property falls through to \<^verbatim>\<open>Object.prototype\<close>: for the names below the read yields a
  function, or for \<^verbatim>\<open>__proto__\<close> the prototype object itself, instead of \<^verbatim>\<open>undefined\<close>.
  Both are truthy, and adding a number to them concatenates text, so the entry becomes
  a string (\<open>GText\<close>; its characters are not modelled). Writing a number or a string to
  \<^verbatim>\<open>__proto__\<close> calls the inherited setter, which ignores it: no property is created.
\<close>

datatype gval = GNum rat | GText

type_synonym grouped = "(string \<times> gval) list"

definition prototype_functions :: "string list" where
  "prototype_functions =
     [''constructor'', ''hasOwnProperty'', ''isPrototypeOf'', ''propertyIsEnumerable'',
      ''toLocaleString'', ''toString'', ''valueOf'', ''__defineGetter__'',
      ''__defineSetter__'', ''__lookupGetter__'', ''__lookupSetter__'']"

text \<open>
  \<^verbatim>\<open>(accumulator[category] || 0) + Number(item.stock)\<close>: the own value if there is one (0
  for a sum that is 0), an inherited function or object otherwise, else 0; then the sum,
  or the concatenation.
\<close>

definition bump :: "grouped \<Rightarrow> string \<Rightarrow> rat \<Rightarrow> gval" where
  "bump accumulator key n =
     (case map_of accumulator key of
        Some (GNum v) \<Rightarrow> GNum (v + n)
      | Some GText \<Rightarrow> GText
      | None \<Rightarrow> (if key = ''__proto__'' \<or> key \<in> set prototype_functions then GText
                 else GNum (0 + n)))"

text \<open>
  \<^verbatim>\<open>accumulator[key] = v\<close>: the own property is overwritten in place, or created after
  the others; for \<^verbatim>\<open>__proto__\<close> the inherited setter runs instead and drops \<open>v\<close>, which
  is a number or a string.
\<close>

fun put_own :: "grouped \<Rightarrow> string \<Rightarrow> gval \<Rightarrow> grouped" where
  "put_own [] key v = [(key, v)]"
| "put_own ((k, w) # rest) key v =
     (if k = key then (k, v) # rest else (k, w) # put_own rest key v)"

definition assign :: "grouped \<Rightarrow> string \<Rightarrow> gval \<Rightarrow> grouped" where
  "assign accumulator key v =
     (if key = ''__proto__'' then accumulator else put_own accumulator key v)"

definition group_step :: "grouped \<Rightarrow> citem \<Rightarrow> grouped" where
  "group_step accumulator item =
     (let category = (if c_category item \<noteq> [] then c_category item else ''Uncategorized'')
      in assign accumulator category (bump accumulator category (c_stock item)))"

text \<open>
  \<^verbatim>\<open>Object.entries(grouped)\<close>: the keys that are array indices (canonical decimal numerals
  up to \<open>2 ^ 32 - 2\<close>) come first, in ascending numeric order, then the other keys in
  creation order.
\<close>

definition is_digit :: "char \<Rightarrow> bool" where
  "is_digit c = (48 \<le> (of_char c :: int) \<and> (of_char c :: int) \<le> 57)"

definition digit_value :: "char \<Rightarrow> int" where
  "digit_value c = of_char c - 48"

definition numeral_value :: "string \<Rightarrow> int" where
  "numeral_value s = foldl (\<lambda>n c. 10 * n + digit_value c) 0 s"

definition is_array_index :: "string \<Rightarrow> bool" where
  "is_array_index s =
     (s \<noteq> [] \<and> list_all is_digit s
      \<and> (s = ''0'' \<or> hd s \<noteq> CHR ''0'')
      \<and> numeral_value s \<le> 4294967294)"

fun insert_index :: "string \<times> 'v \<Rightarrow> (string \<times> 'v) list \<Rightarrow> (string \<times> 'v) list" where
  "insert_index e [] = [e]"
| "insert_index e (d # ds) =
     (if numeral_value (fst e) \<le> numeral_value (fst d) then e # d # ds
      else d # insert_index e ds)"

definition Object_entries :: "(string \<times> 'v) list \<Rightarrow> (string \<times> 'v) list" where
  "Object_entries obj =
     foldr insert_index (filter (\<lambda>e. is_array_index (fst e)) obj) []
     @ filter (\<lambda>e. \<not> is_array_index (fst e)) obj"

text \<open>
  \<^verbatim>\<open>.sort((a, b) => b[1] - a[1])\<close>. The sort is stable; the comparison of two sums
  is their difference, and a difference that involves text is \<open>NaN\<close>, which the sort
  reads as 0. \<open>precedes a b\<close> says that the comparison of \<open>a\<close> with \<open>b\<close> is not
  positive. For numbers this is a total preorder and the stable insertion sort below
  gives the one stable sorted order.
\<close>

fun precedes :: "gval \<Rightarrow> gval \<Rightarrow> bool" where
  "precedes (GNum a) (GNum b) = (b - a \<le> 0)"
| "precedes _ _ = True"

fun insert_sorted :: "string \<times> gval \<Rightarrow> (string \<times> gval) list \<Rightarrow> (string \<times> gval) list" where
  "insert_sorted e [] = [e]"
| "insert_sorted e (d # ds) =
     (if precedes (snd e) (snd d) then e # d # ds else d # insert_sorted e ds)"

definition sort_desc :: "(string \<times> gval) list \<Rightarrow> (string \<times> gval) list" where
  "sort_desc es = foldr insert_sorted es []"

definition chartPalette :: "string list" where
  "chartPalette = [''#561C24'', ''#6D2932'', ''#8B3A44'', ''#a05060'', ''#C7B7A3'', ''#3a1a20'']"

record segment =
  label :: string
  seg_value :: gval
  color :: string

definition categorySegments :: "citem list \<Rightarrow> segment list" where
  "categorySegments items =
     (let grouped = foldl group_step [] items
      in map_index (\<lambda>index (l, v).
             \<lparr>label = l, seg_value = v,
              color = chartPalette ! (index mod length chartPalette)\<rparr>)
           (sort_desc (Object_entries grouped)))"

subsection \<open>Recording a sale\<close>

text \<open>
  \<^verbatim>\<open>String(item.id)\<close> for an integer id: its decimal numeral (ids stay far below
  \<open>10 ^ 21\<close>, where JavaScript switches to exponent notation).
\<close>

fun decimal :: "nat \<Rightarrow> string" where
  "decimal n =
     (if n < 10 then [char_of (48 + n)] else decimal (n div 10) @ [char_of (48 + n mod 10)])"

declare decimal.simps [simp del]

definition String_of_id :: "int \<Rightarrow> string" where
  "String_of_id i = (if i < 0 then CHR ''-'' # decimal (nat (- i)) else decimal (nat i))"

text \<open>
  The body of the update request, the entry of the session's sales log, and what the
  handler does to the outside: the requests it sends, in order, and the toasts it fires
  (icon and title; the message text is presentation).
\<close>

record payload =
  p_name :: string
  p_brand :: string
  p_category :: string
  p_stock :: rat
  p_rawPrice :: rat
  p_sellingPrice :: rat
  p_minStockAlert :: rat

record sale =
  sale_id :: int
  sale_date :: string
  sale_itemId :: int
  sale_name :: string
  sale_brand :: string
  sale_category :: string
  sale_quantity :: rat
  sale_sellingPrice :: rat
  sale_totalAmount :: rat

datatype call = PutItem int payload | GetItems string

datatype toast = Toast string string

text \<open>
  The network, as the handler sees it: the outcome of an update request (the fetch
  fails, or a response arrives that is \<^verbatim>\<open>ok\<close> or not) and of a list request, whose
  query is empty when the request carries none.
\<close>

datatype put_result = FetchFailed | Response bool

datatype get_result = LoadFailed string | Loaded "citem list"

record network =
  put_response :: "int \<Rightarrow> payload \<Rightarrow> put_result"
  get_response :: "string \<Rightarrow> get_result"

text \<open>
  The state of the component that the sale flow reads or writes. \<open>saleForm_quantity\<close>
  stands for \<^verbatim>\<open>Number(saleForm.quantity)\<close>.
\<close>

record client =
  items :: "citem list"
  search :: string
  saleForm_itemId :: string
  saleForm_quantity :: jsnum
  salesLog :: "sale list"
  isSaleModalOpen :: bool
  loading :: bool
  error :: string
  toasts :: "toast list"
  calls :: "call list"

definition fire :: "toast \<Rightarrow> client \<Rightarrow> client" where
  "fire t cl = cl\<lparr>toasts := toasts cl @ [t]\<rparr>"

definition closeSaleModal :: "client \<Rightarrow> client" where
  "closeSaleModal cl = cl\<lparr>isSaleModalOpen := False, saleForm_itemId := [], saleForm_quantity := Fin 0\<rparr>"

definition loadItems :: "network \<Rightarrow> string \<Rightarrow> client \<Rightarrow> client" where
  "loadItems net query cl =
     (let cl1 = cl\<lparr>loading := True, error := [], calls := calls cl @ [GetItems query]\<rparr>
      in case get_response net query of
           Loaded data \<Rightarrow> cl1\<lparr>items := data, loading := False\<rparr>
         | LoadFailed msg \<Rightarrow> cl1\<lparr>error := msg, loading := False\<rparr>)"

text \<open>
  \<^verbatim>\<open>onAddSaleSubmit\<close>; \<open>now\<close> and \<open>stamp\<close> are \<^verbatim>\<open>Date.now()\<close> and
  \<^verbatim>\<open>new Date().toISOString()\<close> at the time of the call.
\<close>

definition onAddSaleSubmit :: "network \<Rightarrow> int \<Rightarrow> string \<Rightarrow> client \<Rightarrow> client" where
  "onAddSaleSubmit net now stamp cl =
     (case find (\<lambda>item. String_of_id (c_id item) = saleForm_itemId cl) (items cl) of
        None \<Rightarrow> fire (Toast ''error'' ''Invalid item'') cl
      | Some selectedItem \<Rightarrow>
          (case saleForm_quantity cl of
             Fin quantity \<Rightarrow>
               if quantity \<le> 0 then fire (Toast ''error'' ''Invalid quantity'') cl
               else
                 let currentStock = c_stock selectedItem
                 in if quantity > currentStock
                    then fire (Toast ''warning'' ''Not enough stock'') cl
                    else
                      let payload =
                            \<lparr>p_name = c_name selectedItem, p_brand = c_brand selectedItem,
                             p_category = c_category selectedItem,
                             p_stock = currentStock - quantity,
                             p_rawPrice = rawPriceOf selectedItem,
                             p_sellingPrice = sellingPriceOf selectedItem,
                             p_minStockAlert = minStockAlertOf selectedItem\<rparr>;
                          cl1 = cl\<lparr>calls := calls cl @ [PutItem (c_id selectedItem) payload]\<rparr>
                      in (case put_response net (c_id selectedItem) payload of
                            Response True \<Rightarrow>
                              let saleRecord =
                                    \<lparr>sale_id = now, sale_date = stamp,
                                     sale_itemId = c_id selectedItem,
                                     sale_name = c_name selectedItem,
                                     sale_brand = c_brand selectedItem,
                                     sale_category = c_category selectedItem,
                                     sale_quantity = quantity,
                                     sale_sellingPrice = sellingPriceOf selectedItem,
                                     sale_totalAmount = sellingPriceOf selectedItem * quantity\<rparr>;
                                  cl2 = cl1\<lparr>salesLog := saleRecord # salesLog cl1\<rparr>;
                                  cl3 = closeSaleModal cl2;
                                  cl4 = loadItems net (search cl3) cl3
                              in fire (Toast ''success'' ''Sale recorded'') cl4
                          | _ \<Rightarrow> fire (Toast ''error'' ''Sale failed'') cl1)
           | _ \<Rightarrow> fire (Toast ''error'' ''Invalid quantity'') cl))"

section \<open>Statements of the specification and sample inputs\<close>

text \<open>
  An update leaves a field alone when the body does not supply it: the id always, and
  each of the seven fields whose key is absent from the body (the selling price when
  neither \<^verbatim>\<open>sellingPrice\<close> nor its alias \<^verbatim>\<open>price\<close> is there).
\<close>

definition keeps_unsupplied :: "body \<Rightarrow> item \<Rightarrow> item \<Rightarrow> bool" where
  "keeps_unsupplied bdy old new =
     (item_id new = item_id old
      \<and> (b_name bdy = Undefined \<longrightarrow> name new = name old)
      \<and> (b_brand bdy = Undefined \<longrightarrow> brand new = brand old)
      \<and> (b_category bdy = Undefined \<longrightarrow> category new = category old)
      \<and> (b_stock bdy = Undefined \<longrightarrow> stock new = stock old)
      \<and> (b_rawPrice bdy = Undefined \<longrightarrow> rawPrice new = rawPrice old)
      \<and> (b_sellingPrice bdy = Undefined \<and> b_price bdy = Undefined
           \<longrightarrow> sellingPrice new = sellingPrice old)
      \<and> (b_minStockAlert bdy = Undefined \<longrightarrow> minStockAlert new = minStockAlert old))"


definition example_item :: item where
  "example_item =
     \<lparr>name = ''Test'', brand = ''B'', category = ''C'', stock = Fin 5, rawPrice = Fin 10,
      sellingPrice = Fin 15, minStockAlert = Fin 10, item_id = 6\<rparr>"

definition stock_body :: body where
  "stock_body =
     \<lparr>b_name = Undefined, b_brand = Undefined, b_category = Undefined,
      b_stock = Value (Fin 20), b_rawPrice = Undefined, b_sellingPrice = Undefined,
      b_price = Undefined, b_minStockAlert = Undefined\<rparr>"

text \<open>A client with two items, the second selected in the sale form with quantity 6.\<close>

definition sample_item :: "int \<Rightarrow> rat \<Rightarrow> citem" where
  "sample_item i s =
     \<lparr>c_id = i, c_name = ''Pod Cartridge 2ml'', c_brand = ''VapeX'', c_category = ''Pods'',
      c_stock = s, c_rawPrice = Some 95, c_sellingPrice = Some 180, c_price = Some 180,
      c_minStockAlert = Some 12\<rparr>"

definition sample_client :: client where
  "sample_client =
     \<lparr>items = [sample_item 4 28, sample_item 12 5], search = [], saleForm_itemId = ''12'',
      saleForm_quantity = Fin 6, salesLog = [], isSaleModalOpen = True, loading = False,
      error = [], toasts = [], calls = []\<rparr>"

definition sample_network :: network where
  "sample_network =
     \<lparr>put_response = (\<lambda>i p. Response True), get_response = (\<lambda>q. Loaded [sample_item 12 2])\<rparr>"

text \<open>
  The words of the validator's contract. A number is bad when it is not finite or is
  negative. A text field is missing when its resolved value is empty or absent. The
  prices are inverted when the resolved selling price is below the resolved raw price.
  Each is read off the values the validator resolves, so there is one per server file.
  A body has no null text when none of its three text fields is \<^verbatim>\<open>null\<close>.
\<close>

definition bad_number :: "jsnum \<Rightarrow> bool" where
  "bad_number x = (\<not> isFinite x \<or> js_lt x (Fin 0))"


definition missing_text2 :: "body \<Rightarrow> item option \<Rightarrow> bool" where
  "missing_text2 bdy cur =
     (falsy (name_of2 bdy cur) \<or> falsy (brand_of2 bdy cur) \<or> falsy (category_of2 bdy cur))"



definition no_null_text :: "body \<Rightarrow> bool" where
  "no_null_text bdy = (b_name bdy \<noteq> Null \<and> b_brand bdy \<noteq> Null \<and> b_category bdy \<noteq> Null)"



text \<open>Bodies of create requests that go wrong in more than one way.\<close>

definition nameless_inverted_body :: body where
  "nameless_inverted_body =
     \<lparr>b_name = Value [], b_brand = Value ''B'', b_category = Value ''C'',
      b_stock = Value (Fin (- 1)), b_rawPrice = Value (Fin 10), b_sellingPrice = Value (Fin 5),
      b_price = Undefined, b_minStockAlert = Undefined\<rparr>"

definition inverted_body :: body where
  "inverted_body =
     \<lparr>b_name = Value ''Test'', b_brand = Value ''B'', b_category = Value ''C'',
      b_stock = Value (Fin 5), b_rawPrice = Value (Fin 10), b_sellingPrice = Value (Fin 5),
      b_price = Undefined, b_minStockAlert = Value (Fin (- 1))\<rparr>"

definition negative_alert_body :: body where
  "negative_alert_body =
     \<lparr>b_name = Value ''Test'', b_brand = Value ''B'', b_category = Value ''C'',
      b_stock = Value (Fin 5), b_rawPrice = Value (Fin 10), b_sellingPrice = Value (Fin 15),
      b_price = Undefined, b_minStockAlert = Value (Fin (- 3))\<rparr>"

definition priceless_body :: body where
  "priceless_body =
     \<lparr>b_name = Value ''Test'', b_brand = Value ''B'', b_category = Value ''C'',
      b_stock = Value (Fin 5), b_rawPrice = Undefined, b_sellingPrice = Undefined,
      b_price = Undefined, b_minStockAlert = Undefined\<rparr>"

definition alias_body :: body where
  "alias_body =
     \<lparr>b_name = Value ''Test'', b_brand = Value ''B'', b_category = Value ''C'',
      b_stock = Value (Fin 5), b_rawPrice = Value (Fin 10), b_sellingPrice = Undefined,
      b_price = Value (Fin 15), b_minStockAlert = Undefined\<rparr>"

definition negative_stock_body :: body where
  "negative_stock_body =
     \<lparr>b_name = Value ''Test'', b_brand = Value ''B'', b_category = Value ''C'',
      b_stock = Value (Fin (- 1)), b_rawPrice = Value (Fin 10), b_sellingPrice = Value (Fin 15),
      b_price = Undefined, b_minStockAlert = Undefined\<rparr>"



text \<open>Client items with the fields the analytics read: a category, a stock, a selling price.\<close>

definition stocked :: "string \<Rightarrow> rat \<Rightarrow> rat \<Rightarrow> citem" where
  "stocked cat s p =
     \<lparr>c_id = 1, c_name = ''Test'', c_brand = ''B'', c_category = cat, c_stock = s,
      c_rawPrice = Some 0, c_sellingPrice = Some p, c_price = Some p,
      c_minStockAlert = Some 10\<rparr>"




text \<open>
  The grouping of the specification: the label of an item is its category, or
  \<open>Uncategorized\<close> for the empty one, and the total of a label is the sum of the stocks
  of the items that carry it. A label is plain when it is not the name of a property
  that every object inherits.
\<close>

definition label_of :: "citem \<Rightarrow> string" where
  "label_of it = (if c_category it \<noteq> [] then c_category it else ''Uncategorized'')"

definition category_total :: "citem list \<Rightarrow> string \<Rightarrow> rat" where
  "category_total its l = (\<Sum>it\<leftarrow>filter (\<lambda>it. label_of it = l) its. c_stock it)"

definition plain_key :: "string \<Rightarrow> bool" where
  "plain_key k = (k \<noteq> ''__proto__'' \<and> k \<notin> set prototype_functions)"

text \<open>
  What the grouping loop maintains on plain labels: the object has one own property per
  label seen so far, holding the total of that label.
\<close>

definition sums_of :: "citem list \<Rightarrow> grouped \<Rightarrow> bool" where
  "sums_of its acc =
     (distinct (map fst acc)
      \<and> (\<forall>k. map_of acc k =
               (if k \<in> label_of ` set its then Some (GNum (category_total its k)) else None)))"

text \<open>Entries in descending order of their values.\<close>

definition descending :: "(string \<times> gval) list \<Rightarrow> bool" where
  "descending es = sorted_wrt (\<lambda>a b. precedes (snd a) (snd b)) es"

section \<open>Properties of the routes\<close>

subsection \<open>Looking an id up\<close>

lemma findIndex_None_iff: "findIndex P xs = None \<longleftrightarrow> (\<forall>x\<in>set xs. \<not> P x)"
  by (induction xs) (auto split: option.splits)

lemma findIndex_Some: "findIndex P xs = Some k \<Longrightarrow> k < length xs \<and> P (xs ! k)"
  by (induction xs arbitrary: k) (auto split: option.splits if_splits)

lemma has_id_NaN: "\<not> has_id NaN i"
  by (simp add: has_id_def js_strict_eq_def)

lemma put_item_unknown:
  "\<forall>i\<in>set st. \<not> has_id n i \<Longrightarrow>
     put_item validate st n bdy = (NotFound ''Item not found.'', st)"
  using findIndex_None_iff [of "has_id n" st] by (simp add: put_item_def)

lemma delete_item_unknown:
  "\<forall>i\<in>set st. \<not> has_id n i \<Longrightarrow> delete_item st n = (NotFound ''Item not found.'', st)"
  by (simp add: delete_item_def Let_def)

lemma no_seed_has_id_9: "list_all (\<lambda>i. \<not> has_id (Fin 9) i) inventory"
  by (simp add: inventory_def has_id_def js_strict_eq_def)

text \<open>
  Claim C10. When the number converted from the id parameter is the id of no stored item
  (\<open>NaN\<close>, the conversion of text that is no number, never is), the update and the delete
  route both answer 404 \<open>Item not found.\<close>, nothing is thrown, and the inventory they
  leave behind is the one they found. This holds for any validator, so for both server
  files.
\<close>

theorem unknown_id_not_found:
  "((\<forall>i\<in>set st. \<not> has_id n i) \<longrightarrow>
      put_item validate st n bdy = (NotFound ''Item not found.'', st)
      \<and> delete_item st n = (NotFound ''Item not found.'', st))
   \<and> put_item validate st NaN bdy = (NotFound ''Item not found.'', st)
   \<and> delete_item st NaN = (NotFound ''Item not found.'', st)"
  using put_item_unknown delete_item_unknown has_id_NaN by blast

theorem unknown_id_not_found_witness:
  "put_item validateAndNormalizeItem inventory (Fin 9)
      \<lparr>b_name = Undefined, b_brand = Undefined, b_category = Undefined,
       b_stock = Value (Fin 20), b_rawPrice = Undefined, b_sellingPrice = Undefined,
       b_price = Undefined, b_minStockAlert = Undefined\<rparr>
     = (NotFound ''Item not found.'', inventory)
   \<and> delete_item inventory (Fin 9) = (NotFound ''Item not found.'', inventory)"
  using unknown_id_not_found [of inventory "Fin 9"] no_seed_has_id_9
  by (simp add: list_all_iff)

subsection \<open>Evaluating the routes on the example\<close>

lemmas resolve_defs =
  name_of_def brand_of_def category_of_def stock_of_def rawPrice_of_def sellingPrice_of_def
  minStockAlert_of_def
  name_of2_def brand_of2_def category_of2_def stock_of2_def rawPrice_of2_def
  sellingPrice_of2_def minStockAlert_of2_def current_def

lemmas string_defs = trim_def is_space_def




lemma length_seed: "length inventory = 5"
  by (simp add: inventory_def)



lemma findIndex_example: "findIndex (has_id (Fin 6)) (inventory @ [example_item]) = Some 5"
  by (simp add: inventory_def example_item_def has_id_def js_strict_eq_def)

lemma validate_stock_body:
  "validateAndNormalizeItem stock_body (Some example_item) False =
     Item \<lparr>name = ''Test'', brand = ''B'', category = ''C'', stock = Fin 20, rawPrice = Fin 10,
           sellingPrice = Fin 15, minStockAlert = Fin 10\<rparr>"
  by (simp add: validateAndNormalizeItem_def stock_body_def example_item_def resolve_defs)

lemma put_example:
  "put_item validateAndNormalizeItem (inventory @ [example_item]) (Fin 6) stock_body =
     (Ok (buildItemResponse (example_item\<lparr>stock := Fin 20\<rparr>)),
      inventory @ [example_item\<lparr>stock := Fin 20\<rparr>])"
proof -
  have n: "(inventory @ [example_item]) ! 5 = example_item"
    using length_seed by (simp add: nth_append)
  have u: "(inventory @ [example_item])[5 := x] = inventory @ [x]" for x
    using length_seed by (simp add: list_update_append)
  show ?thesis
    by (simp add: put_item_def findIndex_example n u validate_stock_body with_id_def Let_def)
       (simp add: example_item_def)
qed

subsection \<open>Creating an item\<close>







subsection \<open>Updating an item\<close>

lemma keeps_refl: "keeps_unsupplied bdy old old"
  by (simp add: keeps_unsupplied_def)

lemma validate_keeps:
  "validateAndNormalizeItem bdy (Some cur) ic = Item v \<Longrightarrow>
     keeps_unsupplied bdy cur (with_id (item_id cur) v)"
  by (auto simp: validateAndNormalizeItem_def keeps_unsupplied_def with_id_def resolve_defs
           split: if_splits)

lemma validate2_keeps:
  "validateAndNormalizeItem2 bdy (Some cur) ic = Item v \<Longrightarrow>
     keeps_unsupplied bdy cur (with_id (item_id cur) v)"
  by (auto simp: validateAndNormalizeItem2_def keeps_unsupplied_def with_id_def resolve_defs
           split: if_splits)

lemma put_item_cases:
  "put_item validate st n bdy = (rep, st') \<Longrightarrow>
     st' = st
     \<or> (\<exists>k v. findIndex (has_id n) st = Some k \<and> validate bdy (Some (st ! k)) False = Item v
           \<and> st' = st[k := with_id (item_id (st ! k)) v]
           \<and> rep = Ok (buildItemResponse (with_id (item_id (st ! k)) v)))"
  by (auto simp: put_item_def Let_def split: option.splits validation.splits)

lemma put_item_frame:
  assumes V: "validate = validateAndNormalizeItem \<or> validate = validateAndNormalizeItem2"
  shows "length (snd (put_item validate st n bdy)) = length st
       \<and> (\<forall>j<length st. keeps_unsupplied bdy (st ! j) (snd (put_item validate st n bdy) ! j))
       \<and> (\<forall>j<length st. \<not> has_id n (st ! j) \<longrightarrow> snd (put_item validate st n bdy) ! j = st ! j)"
proof -
  obtain rep st' where p: "put_item validate st n bdy = (rep, st')"
    by (cases "put_item validate st n bdy")
  from put_item_cases [OF p] show ?thesis
  proof
    assume "st' = st"
    then show ?thesis using p by (simp add: keeps_refl)
  next
    assume "\<exists>k v. findIndex (has_id n) st = Some k \<and> validate bdy (Some (st ! k)) False = Item v
           \<and> st' = st[k := with_id (item_id (st ! k)) v]
           \<and> rep = Ok (buildItemResponse (with_id (item_id (st ! k)) v))"
    then obtain k v where k: "findIndex (has_id n) st = Some k"
      and v: "validate bdy (Some (st ! k)) False = Item v"
      and st': "st' = st[k := with_id (item_id (st ! k)) v]" by blast
    from findIndex_Some [OF k] have kl: "k < length st" and hk: "has_id n (st ! k)" by simp_all
    have keep: "keeps_unsupplied bdy (st ! k) (with_id (item_id (st ! k)) v)"
      using V v validate_keeps validate2_keeps by blast
    have "\<And>j. j < length st \<Longrightarrow> keeps_unsupplied bdy (st ! j) (st' ! j)"
      using keep kl by (auto simp: st' nth_list_update keeps_refl)
    moreover have "\<And>j. j < length st \<Longrightarrow> \<not> has_id n (st ! j) \<Longrightarrow> st' ! j = st ! j"
      unfolding st' using hk by (metis nth_list_update_neq)
    ultimately show ?thesis using p by (simp add: st')
  qed
qed

text \<open>
  Claim C5. For an update through either validator, on any inventory, with any id
  parameter and any body: the inventory keeps its length; at every position the item
  keeps its id and every field the body does not supply (\<open>keeps_unsupplied\<close>), whatever
  the outcome of the request; items whose id is not the requested one are untouched; and
  when no item has the requested id the reply is 404 \<open>Item not found.\<close> and the
  inventory is unchanged.
\<close>

theorem update_keeps_unsupplied_fields:
  assumes "validate = validateAndNormalizeItem \<or> validate = validateAndNormalizeItem2"
  shows "length (snd (put_item validate st n bdy)) = length st
       \<and> (\<forall>j<length st. keeps_unsupplied bdy (st ! j) (snd (put_item validate st n bdy) ! j))
       \<and> (\<forall>j<length st. \<not> has_id n (st ! j) \<longrightarrow> snd (put_item validate st n bdy) ! j = st ! j)
       \<and> ((\<forall>i\<in>set st. \<not> has_id n i) \<longrightarrow>
            put_item validate st n bdy = (NotFound ''Item not found.'', st))"
  using put_item_frame [OF assms] put_item_unknown by blast

theorem update_keeps_unsupplied_fields_witness:
  "put_item validateAndNormalizeItem (inventory @ [example_item]) (Fin 6) stock_body =
     (Ok (buildItemResponse (example_item\<lparr>stock := Fin 20\<rparr>)),
      inventory @ [example_item\<lparr>stock := Fin 20\<rparr>])
   \<and> keeps_unsupplied stock_body example_item (example_item\<lparr>stock := Fin 20\<rparr>)
   \<and> rawPrice (example_item\<lparr>stock := Fin 20\<rparr>) = Fin 10
   \<and> sellingPrice (example_item\<lparr>stock := Fin 20\<rparr>) = Fin 15"
proof -
  have "keeps_unsupplied stock_body ((inventory @ [example_item]) ! 5)
          (snd (put_item validateAndNormalizeItem (inventory @ [example_item]) (Fin 6) stock_body) ! 5)"
    using update_keeps_unsupplied_fields
            [of validateAndNormalizeItem "inventory @ [example_item]" "Fin 6" stock_body]
          length_seed
    by simp
  then have "keeps_unsupplied stock_body example_item (example_item\<lparr>stock := Fin 20\<rparr>)"
    using length_seed by (simp add: put_example nth_append)
  then show ?thesis by (simp add: put_example) (simp add: example_item_def)
qed

subsection \<open>Searching\<close>
















section \<open>Properties of the validators\<close>


lemma finite_not_lt_zero: "\<not> bad_number x \<longleftrightarrow> (\<exists>r. x = Fin r \<and> 0 \<le> r)"
  by (cases x) (auto simp: bad_number_def)

subsection \<open>The validator of src/server/index.js\<close>





subsection \<open>The validator of the second server file\<close>


lemma validate2_missing_text:
  "no_null_text bdy \<Longrightarrow> missing_text2 bdy cur \<Longrightarrow>
     validateAndNormalizeItem2 bdy cur ic = Error ''Name, brand, and category are required.''"
  by (simp add: validateAndNormalizeItem2_def missing_text2_def no_null_text_def)









subsection \<open>Rejected requests and the order of the prices\<close>















lemmas body_defs =
  nameless_inverted_body_def inverted_body_def negative_alert_body_def priceless_body_def
  alias_body_def negative_stock_body_def













text \<open>
  Where the two files part: a create that gives the selling price under its alias
  \<^verbatim>\<open>price\<close> is refused by src/server/index.js, whose last check looks at
  \<^verbatim>\<open>body.sellingPrice\<close> alone, and accepted by the second server file.
\<close>

lemma alias_not_accepted:
  "validateAndNormalizeItem alias_body None True = Error ''Raw price and selling price are required.''
   \<and> validateAndNormalizeItem2 alias_body None True =
       Item \<lparr>name = ''Test'', brand = ''B'', category = ''C'', stock = Fin 5, rawPrice = Fin 10,
             sellingPrice = Fin 15, minStockAlert = Fin 10\<rparr>"
  by (simp add: validateAndNormalizeItem_def validateAndNormalizeItem2_def body_defs
        resolve_defs string_defs)








section \<open>Properties of the client\<close>

subsection \<open>Recording a sale\<close>

lemma fire_frame:
  "items (fire t cl) = items cl" "salesLog (fire t cl) = salesLog cl"
  "calls (fire t cl) = calls cl"
  by (simp_all add: fire_def)

lemma over_stock_local:
  assumes sel: "find (\<lambda>item. String_of_id (c_id item) = saleForm_itemId cl) (items cl)
                  = Some selectedItem"
    and over: "js_lt (Fin (c_stock selectedItem)) (saleForm_quantity cl)"
  shows "onAddSaleSubmit net now stamp cl = fire (Toast ''warning'' ''Not enough stock'') cl
       \<or> onAddSaleSubmit net now stamp cl = fire (Toast ''error'' ''Invalid quantity'') cl"
proof (cases "saleForm_quantity cl")
  case (Fin q)
  with over have "c_stock selectedItem < q" by simp
  with sel Fin show ?thesis by (simp add: onAddSaleSubmit_def Let_def)
qed (use sel in \<open>simp_all add: onAddSaleSubmit_def\<close>)

lemma String_of_id_4: "String_of_id 4 = ''4''"
  by code_simp

lemma String_of_id_12: "String_of_id 12 = ''12''"
  by code_simp

lemma sample_selected:
  "find (\<lambda>item. String_of_id (c_id item) = saleForm_itemId sample_client) (items sample_client)
     = Some (sample_item 12 5)"
  by (simp add: sample_client_def sample_item_def String_of_id_4 String_of_id_12)

text \<open>
  Claim C9. When the sale form selects an item of the list and the quantity is greater
  than that item's stock (\<^verbatim>\<open>quantity > currentStock\<close>, which holds for \<open>Infinity\<close> too),
  the handler only fires a toast (\<open>Not enough stock\<close>, or \<open>Invalid quantity\<close> when the
  quantity is not a positive finite number): the items and their stocks are as before,
  no request has been sent whatever the network would answer, and the sales log has no
  new record.
\<close>

theorem sale_over_stock_rejected:
  assumes "find (\<lambda>item. String_of_id (c_id item) = saleForm_itemId cl) (items cl)
             = Some selectedItem"
    and "js_lt (Fin (c_stock selectedItem)) (saleForm_quantity cl)"
  shows "(onAddSaleSubmit net now stamp cl = fire (Toast ''warning'' ''Not enough stock'') cl
          \<or> onAddSaleSubmit net now stamp cl = fire (Toast ''error'' ''Invalid quantity'') cl)
       \<and> items (onAddSaleSubmit net now stamp cl) = items cl
       \<and> calls (onAddSaleSubmit net now stamp cl) = calls cl
       \<and> salesLog (onAddSaleSubmit net now stamp cl) = salesLog cl"
  using over_stock_local [OF assms, of net now stamp] by (auto simp: fire_frame)

theorem sale_over_stock_rejected_witness:
  "onAddSaleSubmit sample_network 1 ''2026-01-01T00:00:00.000Z'' sample_client
     = fire (Toast ''warning'' ''Not enough stock'') sample_client
   \<and> calls (onAddSaleSubmit sample_network 1 ''2026-01-01T00:00:00.000Z'' sample_client) = []
   \<and> salesLog (onAddSaleSubmit sample_network 1 ''2026-01-01T00:00:00.000Z'' sample_client) = []"
proof -
  have over: "js_lt (Fin (c_stock (sample_item 12 5))) (saleForm_quantity sample_client)"
    by (simp add: sample_client_def sample_item_def)
  have e: "onAddSaleSubmit sample_network 1 ''2026-01-01T00:00:00.000Z'' sample_client
     = fire (Toast ''warning'' ''Not enough stock'') sample_client"
    using sample_selected
    by (simp add: onAddSaleSubmit_def) (simp add: sample_client_def sample_item_def)
  show ?thesis
    using sale_over_stock_rejected
            [OF sample_selected over, of sample_network 1 "''2026-01-01T00:00:00.000Z''"] e
    by (simp add: sample_client_def)
qed

subsection \<open>The synthetic monthly trend\<close>

lemma length_map_index_from: "length (map_index_from k f xs) = length xs"
  by (induction xs arbitrary: k) simp_all

lemma nth_map_index_from:
  "i < length xs \<Longrightarrow> map_index_from k f xs ! i = f (k + i) (xs ! i)"
proof (induction xs arbitrary: k i)
  case Nil
  then show ?case by simp
next
  case (Cons x xs)
  then show ?case by (cases i) simp_all
qed

lemma length_map_index: "length (map_index f xs) = length xs"
  by (simp add: map_index_def length_map_index_from)

lemma nth_map_index: "i < length xs \<Longrightarrow> map_index f xs ! i = f i (xs ! i)"
  by (simp add: map_index_def nth_map_index_from)











subsection \<open>Category grouping: the running sums\<close>

lemma map_of_put_own: "map_of (put_own acc k v) = (map_of acc)(k \<mapsto> v)"
  by (induction acc k v rule: put_own.induct) (auto simp: fun_eq_iff)

lemma keys_put_own:
  "map fst (put_own acc k v) = (if k \<in> fst ` set acc then map fst acc else map fst acc @ [k])"
  by (induction acc k v rule: put_own.induct) auto

lemma distinct_put_own: "distinct (map fst acc) \<Longrightarrow> distinct (map fst (put_own acc k v))"
  by (simp add: keys_put_own)

lemma category_total_snoc:
  "category_total (its @ [x]) l =
     (if label_of x = l then category_total its l + c_stock x else category_total its l)"
  by (simp add: category_total_def)

lemma category_total_unseen: "l \<notin> label_of ` set its \<Longrightarrow> category_total its l = 0"
proof -
  assume "l \<notin> label_of ` set its"
  then have "filter (\<lambda>it. label_of it = l) its = []"
    by (auto simp: filter_empty_conv)
  then show ?thesis by (simp add: category_total_def)
qed

lemma group_step_label:
  "plain_key (label_of x) \<Longrightarrow>
     group_step acc x = put_own acc (label_of x) (bump acc (label_of x) (c_stock x))"
  by (simp add: group_step_def assign_def label_of_def plain_key_def Let_def)

lemma sums_of_step:
  assumes inv: "sums_of its acc" and pl: "plain_key (label_of x)"
  shows "sums_of (its @ [x]) (group_step acc x)"
proof -
  let ?l = "label_of x"
  have b: "bump acc ?l (c_stock x) = GNum (category_total its ?l + c_stock x)"
  proof (cases "?l \<in> label_of ` set its")
    case True
    with inv have "map_of acc ?l = Some (GNum (category_total its ?l))"
      by (simp add: sums_of_def)
    then show ?thesis by (simp add: bump_def)
  next
    case False
    with inv have "map_of acc ?l = None" by (simp add: sums_of_def)
    moreover have "category_total its ?l = 0" using False by (rule category_total_unseen)
    ultimately show ?thesis using pl by (simp add: bump_def plain_key_def)
  qed
  have d: "distinct (map fst (group_step acc x))"
    using inv by (simp add: group_step_label [OF pl] distinct_put_own sums_of_def)
  have m: "map_of (group_step acc x) k =
             (if k \<in> label_of ` set (its @ [x]) then Some (GNum (category_total (its @ [x]) k))
              else None)" for k
    using inv by (auto simp: group_step_label [OF pl] map_of_put_own b sums_of_def
        category_total_snoc)
  from d m show ?thesis by (simp add: sums_of_def)
qed

lemma sums_of_grouped:
  "\<forall>it\<in>set its. plain_key (label_of it) \<Longrightarrow> sums_of its (foldl group_step [] its)"
proof (induction its rule: rev_induct)
  case Nil
  show ?case by (simp add: sums_of_def)
next
  case (snoc x xs)
  then show ?case using sums_of_step [of xs "foldl group_step [] xs" x] by simp
qed


subsection \<open>Category grouping: entries and their order\<close>

lemma set_insert_index: "set (insert_index e ds) = insert e (set ds)"
  by (induction ds) auto

lemma set_index_sorted: "set (foldr insert_index es []) = set es"
  by (induction es) (simp_all add: set_insert_index)

lemma distinct_insert_index:
  "distinct (map fst (insert_index e ds)) \<longleftrightarrow> fst e \<notin> fst ` set ds \<and> distinct (map fst ds)"
  by (induction ds) (auto simp: set_insert_index)

lemma distinct_index_sorted:
  "distinct (map fst (foldr insert_index es [])) \<longleftrightarrow> distinct (map fst es)"
  by (induction es) (simp_all add: distinct_insert_index set_index_sorted)

lemma set_Object_entries: "set (Object_entries obj) = set obj"
  by (auto simp: Object_entries_def set_index_sorted)

lemma distinct_Object_entries:
  assumes "distinct (map fst obj)"
  shows "distinct (map fst (Object_entries obj))"
proof -
  have 1: "distinct (map fst (filter (\<lambda>e. is_array_index (fst e)) obj))"
    and 2: "distinct (map fst (filter (\<lambda>e. \<not> is_array_index (fst e)) obj))"
    using assms by (simp_all add: distinct_map_filter)
  have "fst ` set (foldr insert_index (filter (\<lambda>e. is_array_index (fst e)) obj) [])
          \<inter> fst ` set (filter (\<lambda>e. \<not> is_array_index (fst e)) obj) = {}"
    by (auto simp: set_index_sorted)
  with 1 2 show ?thesis
    by (simp add: Object_entries_def distinct_index_sorted)
qed

lemma set_insert_sorted: "set (insert_sorted e ds) = insert e (set ds)"
  by (induction ds) auto

lemma set_sort_desc: "set (sort_desc es) = set es"
  unfolding sort_desc_def by (induction es) (simp_all add: set_insert_sorted)

lemma distinct_insert_sorted:
  "distinct (map fst (insert_sorted e ds)) \<longleftrightarrow> fst e \<notin> fst ` set ds \<and> distinct (map fst ds)"
  by (induction ds) (auto simp: set_insert_sorted)

lemma distinct_sort_desc: "distinct (map fst (sort_desc es)) \<longleftrightarrow> distinct (map fst es)"
  unfolding sort_desc_def
  by (induction es) (simp_all add: distinct_insert_sorted set_sort_desc [unfolded sort_desc_def])

lemma precedes_total: "precedes a b \<or> precedes b a"
  by (cases a; cases b) auto

lemma precedes_trans:
  "\<exists>r. a = GNum r \<Longrightarrow> \<exists>r. b = GNum r \<Longrightarrow> \<exists>r. c = GNum r \<Longrightarrow>
     precedes a b \<Longrightarrow> precedes b c \<Longrightarrow> precedes a c"
  by auto

lemma descending_insert:
  assumes num: "\<forall>d\<in>set (e # ds). \<exists>r. snd d = GNum r" and sorted: "descending ds"
  shows "descending (insert_sorted e ds)"
  using assms
proof (induction ds)
  case Nil
  then show ?case by (simp add: descending_def)
next
  case (Cons d ds)
  show ?case
  proof (cases "precedes (snd e) (snd d)")
    case True
    have "precedes (snd e) (snd x)" if "x \<in> set ds" for x
    proof -
      have "precedes (snd d) (snd x)" using Cons.prems(2) that by (simp add: descending_def)
      with True show ?thesis
        using Cons.prems(1) that precedes_trans [of "snd e" "snd d" "snd x"] by simp
    qed
    with True Cons.prems(2) show ?thesis by (auto simp: descending_def)
  next
    case False
    then have de: "precedes (snd d) (snd e)" using precedes_total by blast
    have "descending (insert_sorted e ds)"
      using Cons by (simp add: descending_def)
    with False de Cons.prems(2) show ?thesis
      by (auto simp: descending_def set_insert_sorted)
  qed
qed

lemma descending_sort_desc:
  "\<forall>d\<in>set es. \<exists>r. snd d = GNum r \<Longrightarrow> descending (sort_desc es)"
proof (induction es)
  case Nil
  show ?case by (simp add: sort_desc_def descending_def)
next
  case (Cons e es)
  have "descending (insert_sorted e (sort_desc es))"
    using Cons by (intro descending_insert) (auto simp: set_sort_desc)
  then show ?case by (simp add: sort_desc_def)
qed


subsection \<open>Category grouping: the segments\<close>

lemma segments_of_entries:
  fixes its :: "citem list"
  defines "es \<equiv> sort_desc (Object_entries (foldl group_step [] its))"
  shows "length (categorySegments its) = length es"
    and "i < length es \<Longrightarrow>
           categorySegments its ! i =
             \<lparr>label = fst (es ! i), seg_value = snd (es ! i),
              color = chartPalette ! (i mod length chartPalette)\<rparr>"
    and "map label (categorySegments its) = map fst es"
proof -
  show l: "length (categorySegments its) = length es"
    by (simp add: categorySegments_def es_def length_map_index Let_def)
  show n: "categorySegments its ! i =
             \<lparr>label = fst (es ! i), seg_value = snd (es ! i),
              color = chartPalette ! (i mod length chartPalette)\<rparr>"
    if "i < length es" for i
    using that
    by (simp add: categorySegments_def es_def [symmetric] nth_map_index Let_def case_prod_beta)
  show "map label (categorySegments its) = map fst es"
    by (rule nth_equalityI) (simp_all add: l n)
qed

lemma entries_are_totals:
  assumes pl: "\<forall>it\<in>set its. plain_key (label_of it)"
  defines "es \<equiv> sort_desc (Object_entries (foldl group_step [] its))"
  shows "distinct (map fst es)"
    and "fst ` set es = label_of ` set its"
    and "\<forall>e\<in>set es. snd e = GNum (category_total its (fst e))"
proof -
  let ?g = "foldl group_step [] its"
  have inv: "sums_of its ?g" using pl by (rule sums_of_grouped)
  then have d: "distinct (map fst ?g)" by (simp add: sums_of_def)
  have s: "set es = set ?g" by (simp add: es_def set_sort_desc set_Object_entries)
  show "distinct (map fst es)"
    using d by (simp add: es_def distinct_sort_desc distinct_Object_entries)
  have m: "map_of ?g k =
      (if k \<in> label_of ` set its then Some (GNum (category_total its k)) else None)" for k
    using inv by (simp add: sums_of_def)
  show "fst ` set es = label_of ` set its"
  proof -
    have "fst ` set ?g = dom (map_of ?g)" by (simp add: dom_map_of_conv_image_fst)
    also have "\<dots> = label_of ` set its" using m by (auto simp: dom_def)
    finally show ?thesis by (simp add: s)
  qed
  show "\<forall>e\<in>set es. snd e = GNum (category_total its (fst e))"
  proof
    fix e assume "e \<in> set es"
    then have "(fst e, snd e) \<in> set ?g" by (simp add: s)
    with d have "map_of ?g (fst e) = Some (snd e)" by simp
    with m [of "fst e"] show "snd e = GNum (category_total its (fst e))"
      by (simp split: if_splits)
  qed
qed

text \<open>
  On item lists whose labels are all plain, the grouping does what the specification
  says: one segment per distinct label, each holding the sum of the stocks under that
  label, in descending order of these sums, the segment at rank \<open>i\<close> coloured with the
  palette entry \<open>i mod 6\<close>.
\<close>

lemma categorySegments_plain:
  assumes pl: "\<forall>it\<in>set its. plain_key (label_of it)"
  shows "distinct (map label (categorySegments its))
       \<and> set (map label (categorySegments its)) = label_of ` set its
       \<and> (\<forall>i<length (categorySegments its).
            seg_value (categorySegments its ! i)
              = GNum (category_total its (label (categorySegments its ! i)))
            \<and> color (categorySegments its ! i) = chartPalette ! (i mod length chartPalette))
       \<and> (\<forall>i j. i < j \<and> j < length (categorySegments its) \<longrightarrow>
            category_total its (label (categorySegments its ! j))
              \<le> category_total its (label (categorySegments its ! i)))"
proof -
  define es where "es = sort_desc (Object_entries (foldl group_step [] its))"
  note seg = segments_of_entries [where its = its, folded es_def]
  note ent = entries_are_totals [OF pl, folded es_def]
  have v: "snd (es ! i) = GNum (category_total its (fst (es ! i)))" if "i < length es" for i
    using ent(3) that by simp
  have "descending es"
    unfolding es_def
  proof (rule descending_sort_desc)
    show "\<forall>d\<in>set (Object_entries (foldl group_step [] its)). \<exists>r. snd d = GNum r"
      using ent(3) by (auto simp: es_def set_sort_desc)
  qed
  then have o: "precedes (snd (es ! i)) (snd (es ! j))" if "i < j" "j < length es" for i j
    using that by (simp add: descending_def sorted_wrt_iff_nth_less)
  have ord: "category_total its (fst (es ! j)) \<le> category_total its (fst (es ! i))"
    if "i < j" "j < length es" for i j
    using o [OF that] v [of i] v [of j] that by simp
  show ?thesis
    using seg ent(1,2) v ord by (simp add: image_image [symmetric] del: image_image)
qed


text \<open>The example of the specification: stocks 5 and 3 under A and 2 under B.\<close>

lemma grouping_example:
  "categorySegments [stocked ''A'' 5 10, stocked ''A'' 3 10, stocked ''B'' 2 10] =
     [\<lparr>label = ''A'', seg_value = GNum 8, color = ''#561C24''\<rparr>,
      \<lparr>label = ''B'', seg_value = GNum 2, color = ''#6D2932''\<rparr>]"
  by code_simp

text \<open>
  Claim C7 says that every item list yields one segment per distinct category, holding
  the sum of that category's stocks. The code does not for a category named like an
  inherited property of the object it groups in: an item of category \<^verbatim>\<open>__proto__\<close> with
  stock 5 yields no segment at all, alone or beside another category, and an item of
  category \<^verbatim>\<open>constructor\<close> yields a segment whose value is text, not the number 5.
\<close>

theorem grouping_loses_inherited_names:
  "categorySegments [stocked ''__proto__'' 5 10] = []
   \<and> categorySegments [stocked ''__proto__'' 5 10, stocked ''A'' 3 10] =
       [\<lparr>label = ''A'', seg_value = GNum 3, color = ''#561C24''\<rparr>]
   \<and> categorySegments [stocked ''constructor'' 5 10] =
       [\<lparr>label = ''constructor'', seg_value = GText, color = ''#561C24''\<rparr>]"
  by code_simp

end
